theory Spec2Isabelle
  imports Complex_Main
begin

section \<open>The .drp adapter: data\<close>

text \<open>
  The adapter (\<^verbatim>\<open>otio_drp_adapter/adapters/drp.py\<close>) is one function,
  \<^verbatim>\<open>read_from_file\<close>. It reads a line-delimited JSON file, decodes the first
  line as the header and every further line as a switch event, and builds a timeline with
  one track of clips.

  A decoded JSON document is a value of \<open>json\<close>. An object is the association list of
  its members, read with \<open>map_of\<close>; the decoder leaves one binding per key. A float is
  the rational it denotes (the adapter never computes with one; it only uses it as a
  dictionary key or passes it on), the decoder's non-finite constants are not represented.
  A Python \<open>str\<close> is a \<open>string\<close>, one \<open>char\<close> per code point, so the model covers
  code points below 256.
\<close>

datatype json =
    JNull
  | JBool bool
  | JInt int
  | JFloat rat
  | JStr string
  | JArr "json list"
  | JObj "(string \<times> json) list"

text \<open>The exceptions the function can leave with; \<open>NoSources\<close> is its own
  \<^verbatim>\<open>Exception("No sources in drp file")\<close>.\<close>

datatype error =
    JSONDecodeError
  | KeyError
  | TypeError
  | ValueError
  | IndexError
  | AttributeError
  | NoSources

definition bnd :: "error + 'a \<Rightarrow> ('a \<Rightarrow> error + 'b) \<Rightarrow> error + 'b" where
  "bnd r f = (case r of Inl e \<Rightarrow> Inl e | Inr x \<Rightarrow> f x)"

subsection \<open>Python's operations on decoded values\<close>

text \<open>\<^verbatim>\<open>x[key]\<close> for a string key: only a dict can be read so.\<close>

fun getitem :: "json \<Rightarrow> string \<Rightarrow> error + json" where
  "getitem (JObj kvs) k = (case map_of kvs k of None \<Rightarrow> Inl KeyError | Some v \<Rightarrow> Inr v)"
| "getitem JNull k = Inl TypeError"
| "getitem (JBool b) k = Inl TypeError"
| "getitem (JInt n) k = Inl TypeError"
| "getitem (JFloat q) k = Inl TypeError"
| "getitem (JStr s) k = Inl TypeError"
| "getitem (JArr xs) k = Inl TypeError"

text \<open>\<^verbatim>\<open>x[0]\<close>: the first element of a list, the first character of a string, and a
  \<^verbatim>\<open>KeyError\<close> on a dict, whose keys are all strings.\<close>

fun getitem0 :: "json \<Rightarrow> error + json" where
  "getitem0 (JArr []) = Inl IndexError"
| "getitem0 (JArr (x # xs)) = Inr x"
| "getitem0 (JStr []) = Inl IndexError"
| "getitem0 (JStr (c # cs)) = Inr (JStr [c])"
| "getitem0 (JObj kvs) = Inl KeyError"
| "getitem0 JNull = Inl TypeError"
| "getitem0 (JBool b) = Inl TypeError"
| "getitem0 (JInt n) = Inl TypeError"
| "getitem0 (JFloat q) = Inl TypeError"

text \<open>\<^verbatim>\<open>xs[-1]\<close> on a Python list.\<close>

fun last_item :: "'a list \<Rightarrow> error + 'a" where
  "last_item [] = Inl IndexError"
| "last_item (x # xs) = Inr (last (x # xs))"

fun is_substring :: "string \<Rightarrow> string \<Rightarrow> bool" where
  "is_substring p [] = (p = [])"
| "is_substring p (c # cs) = (take (length p) (c # cs) = p \<or> is_substring p cs)"

text \<open>\<^verbatim>\<open>key in x\<close> for a string key: a member name of a dict, an element of a list,
  a substring of a string.\<close>

fun contains_str :: "string \<Rightarrow> json \<Rightarrow> error + bool" where
  "contains_str k (JObj kvs) = Inr (map_of kvs k \<noteq> None)"
| "contains_str k (JArr xs) = Inr (JStr k \<in> set xs)"
| "contains_str k (JStr s) = Inr (is_substring k s)"
| "contains_str k JNull = Inl TypeError"
| "contains_str k (JBool b) = Inl TypeError"
| "contains_str k (JInt n) = Inl TypeError"
| "contains_str k (JFloat q) = Inl TypeError"

text \<open>\<^verbatim>\<open>for src in x\<close>: the elements of a list, the keys of a dict, the characters of
  a string.\<close>

fun iter :: "json \<Rightarrow> error + json list" where
  "iter (JArr xs) = Inr xs"
| "iter (JObj kvs) = Inr (map (\<lambda>kv. JStr (fst kv)) kvs)"
| "iter (JStr s) = Inr (map (\<lambda>c. JStr [c]) s)"
| "iter JNull = Inl TypeError"
| "iter (JBool b) = Inl TypeError"
| "iter (JInt n) = Inl TypeError"
| "iter (JFloat q) = Inl TypeError"

subsection \<open>Dictionaries keyed by decoded values\<close>

text \<open>
  \<^verbatim>\<open>extrefs\<close> is a dict whose keys are whatever the sources give as \<^verbatim>\<open>_index_\<close>.
  A list or a dict is unhashable. Python compares numeric keys by value, \<^verbatim>\<open>True\<close>
  and \<^verbatim>\<open>False\<close> being 1 and 0; a string or \<^verbatim>\<open>None\<close> equals only itself.
\<close>

fun hashable :: "json \<Rightarrow> bool" where
  "hashable (JArr xs) = False"
| "hashable (JObj kvs) = False"
| "hashable JNull = True"
| "hashable (JBool b) = True"
| "hashable (JInt n) = True"
| "hashable (JFloat q) = True"
| "hashable (JStr s) = True"

fun key_num :: "json \<Rightarrow> rat option" where
  "key_num (JInt n) = Some (of_int n)"
| "key_num (JBool b) = Some (if b then 1 else 0)"
| "key_num (JFloat q) = Some q"
| "key_num JNull = None"
| "key_num (JStr s) = None"
| "key_num (JArr xs) = None"
| "key_num (JObj kvs) = None"

definition key_eq :: "json \<Rightarrow> json \<Rightarrow> bool" where
  "key_eq a b =
     (case key_num a of
        Some x \<Rightarrow> (case key_num b of Some y \<Rightarrow> x = y | None \<Rightarrow> False)
      | None \<Rightarrow> (case key_num b of Some y \<Rightarrow> False | None \<Rightarrow> a = b))"

fun dict_get :: "(json \<times> 'v) list \<Rightarrow> json \<Rightarrow> 'v option" where
  "dict_get [] k = None"
| "dict_get (kv # d) k = (if key_eq (fst kv) k then Some (snd kv) else dict_get d k)"

fun dict_set :: "(json \<times> 'v) list \<Rightarrow> json \<Rightarrow> 'v \<Rightarrow> (json \<times> 'v) list" where
  "dict_set [] k v = [(k, v)]"
| "dict_set (kv # d) k v =
     (if key_eq (fst kv) k then (fst kv, v) # d else kv # dict_set d k v)"

text \<open>\<^verbatim>\<open>d[k]\<close>: an unhashable key is a \<^verbatim>\<open>TypeError\<close>, a missing one a
  \<^verbatim>\<open>KeyError\<close>.\<close>

definition dict_item :: "(json \<times> 'v) list \<Rightarrow> json \<Rightarrow> error + 'v" where
  "dict_item d k =
     (if \<not> hashable k then Inl TypeError
      else case dict_get d k of None \<Rightarrow> Inl KeyError | Some v \<Rightarrow> Inr v)"

subsection \<open>Strings\<close>

text \<open>\<^verbatim>\<open>str.strip()\<close> removes leading and trailing whitespace; below code point 256
  the whitespace characters are 9 to 13, 28 to 32, 133 and 160.\<close>

definition py_isspace :: "char \<Rightarrow> bool" where
  "py_isspace c =
     (let n = (of_char c :: nat)
      in (9 \<le> n \<and> n \<le> 13) \<or> (28 \<le> n \<and> n \<le> 32) \<or> n = 133 \<or> n = 160)"

definition strip :: "string \<Rightarrow> string" where
  "strip s = rev (dropWhile py_isspace (rev (dropWhile py_isspace s)))"

text \<open>\<^verbatim>\<open>s.split(sep)\<close> for a separator of one character.\<close>

fun split_on :: "char \<Rightarrow> string \<Rightarrow> string list" where
  "split_on sep [] = [[]]"
| "split_on sep (c # cs) =
     (if c = sep then [] # split_on sep cs
      else (case split_on sep cs of [] \<Rightarrow> [[c]] | p # ps \<Rightarrow> (c # p) # ps))"

text \<open>
  \<^verbatim>\<open>int(s)\<close>: surrounding whitespace is dropped, one sign is allowed, then decimal
  digits, where single underscores may stand between digits. Anything else is a
  \<^verbatim>\<open>ValueError\<close>. The whitespace of \<^verbatim>\<open>int\<close> is not that of
  \<^verbatim>\<open>str.strip\<close>: below code point 256 it is 9 to 13, 32, 133 and 160, and the
  separators 28 to 31 are not dropped. (The interpreter's optional limit on the number
  of digits is not modelled.)
\<close>

definition int_isspace :: "char \<Rightarrow> bool" where
  "int_isspace c =
     (let n = (of_char c :: nat)
      in (9 \<le> n \<and> n \<le> 13) \<or> n = 32 \<or> n = 133 \<or> n = 160)"

definition is_digit :: "char \<Rightarrow> bool" where
  "is_digit c = (let n = (of_char c :: nat) in 48 \<le> n \<and> n \<le> 57)"

definition digit_val :: "char \<Rightarrow> nat" where
  "digit_val c = of_char c - 48"

fun int_digits :: "nat \<Rightarrow> string \<Rightarrow> nat option" where
  "int_digits acc [] = Some acc"
| "int_digits acc [c] = (if is_digit c then Some (10 * acc + digit_val c) else None)"
| "int_digits acc (c # d # cs) =
     (if is_digit c then int_digits (10 * acc + digit_val c) (d # cs)
      else if c = CHR ''_'' \<and> is_digit d then int_digits (10 * acc + digit_val d) cs
      else None)"

definition int_literal :: "string \<Rightarrow> nat option" where
  "int_literal s =
     (case s of [] \<Rightarrow> None
      | c # cs \<Rightarrow> if is_digit c then int_digits (digit_val c) cs else None)"

definition py_int :: "string \<Rightarrow> error + int" where
  "py_int s =
     (let t = rev (dropWhile int_isspace (rev (dropWhile int_isspace s)));
          neg = (case t of [] \<Rightarrow> False | c # cs \<Rightarrow> c = CHR ''-'');
          body = (case t of [] \<Rightarrow> []
                  | c # cs \<Rightarrow> if c = CHR ''-'' \<or> c = CHR ''+'' then cs else t)
      in case int_literal body of
           None \<Rightarrow> Inl ValueError
         | Some n \<Rightarrow> Inr (if neg then - int n else int n))"

text \<open>\<^verbatim>\<open>os.path.basename\<close>: what follows the last slash.\<close>

definition basename :: "string \<Rightarrow> string" where
  "basename p = rev (takeWhile (\<lambda>c. c \<noteq> CHR ''/'') (rev p))"

section \<open>The timeline\<close>

text \<open>
  Every time of one conversion has the rate of the header, so a \<^verbatim>\<open>RationalTime\<close>
  is its number of frames and the rate is kept once, with the timeline. An
  \<^verbatim>\<open>ExternalReference\<close> holds its target and its available range, a \<^verbatim>\<open>Clip\<close>
  its name, its media reference (or \<^verbatim>\<open>None\<close>) and its source range: a start and a
  duration. Both constructors take a \<^verbatim>\<open>str\<close>, for the target and for the name,
  and raise a \<^verbatim>\<open>TypeError\<close> when they are given anything else.
\<close>

record external_reference =
  target_url :: string
  available_start :: int
  available_duration :: int

record clip =
  clip_name :: string
  media_reference :: "external_reference option"
  range_start :: int
  range_duration :: int

record timeline =
  timeline_name :: string
  track_name :: string
  timeline_rate :: int
  track_clips :: "clip list"

text \<open>\<^verbatim>\<open>ExternalReference(target_url=f, available_range=TimeRange(0, duration))\<close>
  and \<^verbatim>\<open>Clip(nm, media_reference=ref, source_range=TimeRange(start, duration))\<close>.\<close>

fun external_reference_of :: "json \<Rightarrow> int \<Rightarrow> error + external_reference" where
  "external_reference_of (JStr url) duration =
     Inr \<lparr>target_url = url, available_start = 0, available_duration = duration\<rparr>"
| "external_reference_of f duration = Inl TypeError"

fun clip_of :: "json \<Rightarrow> external_reference option \<Rightarrow> int \<Rightarrow> int \<Rightarrow> error + clip" where
  "clip_of (JStr nm) ref start duration =
     Inr \<lparr>clip_name = nm, media_reference = ref, range_start = start,
          range_duration = duration\<rparr>"
| "clip_of nm ref start duration = Inl TypeError"

text \<open>An entry of \<^verbatim>\<open>extrefs\<close>: the source's dict as decoded, and what the function
  stores in it under \<^verbatim>\<open>"ref"\<close>.\<close>

record source_entry =
  src_fields :: "(string \<times> json) list"
  src_ref :: "external_reference option"

type_synonym extrefs = "(json \<times> source_entry) list"

text \<open>A conversion that raises leaves with the exception and the clips that had been
  appended to the track by then.\<close>

type_synonym failure = "error \<times> clip list"

section \<open>The function \<^verbatim>\<open>read_from_file\<close>\<close>

text \<open>
  Two library functions are parameters of the model: \<open>decode\<close>, the JSON decoder
  (\<open>None\<close> where \<^verbatim>\<open>json.loads\<close> raises), and \<open>from_timecode\<close>, the conversion of a
  timecode to a number of frames at a rate. The file is the list of its lines, as the
  file object yields them.
\<close>

text \<open>\<^verbatim>\<open>json.loads\<close>: the empty document is never valid JSON.\<close>

definition json_loads :: "(string \<Rightarrow> json option) \<Rightarrow> string \<Rightarrow> error + json" where
  "json_loads decode s =
     (if s = [] then Inl JSONDecodeError
      else case decode s of None \<Rightarrow> Inl JSONDecodeError | Some v \<Rightarrow> Inr v)"

text \<open>\<^verbatim>\<open>source.readline()\<close> at the start of the file: the first line, the empty string
  for an empty file. The loop \<^verbatim>\<open>for line in source\<close> then sees the other lines.\<close>

definition readline :: "string list \<Rightarrow> string" where
  "readline lines = (case lines of [] \<Rightarrow> [] | l # ls \<Rightarrow> l)"

definition remaining_lines :: "string list \<Rightarrow> string list" where
  "remaining_lines lines = (case lines of [] \<Rightarrow> [] | l # ls \<Rightarrow> ls)"

text \<open>Lines 28 to 30: every remaining line is stripped and decoded, in file order, and
  appended to \<^verbatim>\<open>timeline_data\<close>.\<close>

fun decode_events ::
  "(string \<Rightarrow> json option) \<Rightarrow> json list \<Rightarrow> string list \<Rightarrow> error + json list" where
  "decode_events decode timeline_data [] = Inr timeline_data"
| "decode_events decode timeline_data (line # ls) =
     (case json_loads decode (strip line) of
        Inl e \<Rightarrow> Inl e
      | Inr v \<Rightarrow> decode_events decode (timeline_data @ [v]) ls)"

text \<open>Lines 38 and 39: the rate is the integer after the \<^verbatim>\<open>p\<close> of the video mode.\<close>

definition video_rate :: "json \<Rightarrow> error + int" where
  "video_rate metadata =
     bnd (getitem metadata ''videoMode'') (\<lambda>vm.
       case vm of
         JStr s \<Rightarrow>
           (case split_on CHR ''p'' s of
              [widths, rates] \<Rightarrow> py_int rates
            | _ \<Rightarrow> Inl ValueError)
       | _ \<Rightarrow> Inl AttributeError)"

text \<open>Lines 63 to 73: every source gets \<^verbatim>\<open>"ref"\<close>, an external reference when it
  has a file, and is stored in \<^verbatim>\<open>extrefs\<close> under its \<^verbatim>\<open>_index_\<close>.\<close>

fun sources_loop :: "int \<Rightarrow> extrefs \<Rightarrow> json list \<Rightarrow> error + extrefs" where
  "sources_loop duration extrefs [] = Inr extrefs"
| "sources_loop duration extrefs (src # rest) =
     (case src of
        JObj kvs \<Rightarrow>
          (case (case map_of kvs ''file'' of
                   None \<Rightarrow> Inr None
                 | Some f \<Rightarrow>
                     (case external_reference_of f duration of
                        Inl e \<Rightarrow> Inl e
                      | Inr r \<Rightarrow> Inr (Some r))) of
             Inl e \<Rightarrow> Inl e
           | Inr ref \<Rightarrow>
               (case map_of kvs ''_index_'' of
                  None \<Rightarrow> Inl KeyError
                | Some k \<Rightarrow>
                    if hashable k
                    then sources_loop duration
                           (dict_set extrefs k \<lparr>src_fields = kvs, src_ref = ref\<rparr>) rest
                    else Inl TypeError))
      | _ \<Rightarrow> Inl TypeError)"

text \<open>Lines 76 to 79: the source chosen before the show starts; only a
  \<^verbatim>\<open>KeyError\<close> is caught.\<close>

definition initial_source :: "json \<Rightarrow> error + json" where
  "initial_source metadata =
     (case bnd (getitem metadata ''mixEffectBlocks'') (\<lambda>blocks.
             bnd (getitem0 blocks) (\<lambda>block. getitem block ''source'')) of
        Inl e \<Rightarrow> if e = KeyError then Inr (JInt 0) else Inl e
      | Inr s \<Rightarrow> Inr s)"

text \<open>Lines 36 to 79, on the decoded header and events: the rate, the reference
  timecode, \<^verbatim>\<open>extrefs\<close> and the first source.\<close>

definition prepare ::
  "(json \<Rightarrow> int \<Rightarrow> error + int) \<Rightarrow> json \<Rightarrow> json list \<Rightarrow>
     error + (int \<times> int \<times> extrefs \<times> json)" where
  "prepare from_timecode metadata timeline_data =
     bnd (getitem metadata ''masterTimecode'') (\<lambda>mt.
     bnd (video_rate metadata) (\<lambda>rate.
     bnd (contains_str ''sources'' metadata) (\<lambda>has_sources.
     if \<not> has_sources then Inl NoSources else
     bnd (from_timecode mt rate) (\<lambda>tc_ref.
     bnd (last_item timeline_data) (\<lambda>last_event.
     bnd (getitem last_event ''masterTimecode'') (\<lambda>last_tc.
     bnd (from_timecode last_tc rate) (\<lambda>end_frame.
     bnd (getitem metadata ''sources'') (\<lambda>sources.
     bnd (iter sources) (\<lambda>srcs.
     bnd (sources_loop (end_frame - tc_ref) [] srcs) (\<lambda>extrefs.
     bnd (initial_source metadata) (\<lambda>current_source.
     Inr (rate, tc_ref, extrefs, current_source))))))))))))"

text \<open>The variables of the loop over the switches.\<close>

record loop_state =
  current_tc :: int
  current_source :: json
  track :: "clip list"

text \<open>Lines 84 to 105, the body of the loop over the switches, for the switch \<open>c\<close>:
  the clip that ends at \<open>c\<close> is built from the source that was current and appended, the
  cursor moves on, and the switch either names the next source (\<open>True\<close>: the loop goes
  on) or does not (\<open>False\<close>: \<^verbatim>\<open>break\<close>).\<close>

definition switch_body ::
  "(json \<Rightarrow> int \<Rightarrow> error + int) \<Rightarrow> int \<Rightarrow> int \<Rightarrow> extrefs \<Rightarrow> loop_state \<Rightarrow> json \<Rightarrow>
     failure + (bool \<times> loop_state)" where
  "switch_body from_timecode rate tc_ref extrefs st c =
     (case bnd (getitem c ''masterTimecode'') (\<lambda>t. from_timecode t rate) of
        Inl e \<Rightarrow> Inl (e, track st)
      | Inr next_clip_tc \<Rightarrow>
          (let next_clip_frames = next_clip_tc - tc_ref in
           case bnd (dict_item extrefs (current_source st)) (\<lambda>src.
                  bnd (getitem (JObj (src_fields src)) ''name'') (\<lambda>nm.
                  clip_of nm (src_ref src) (current_tc st) next_clip_frames)) of
             Inl e \<Rightarrow> Inl (e, track st)
           | Inr new_clip \<Rightarrow>
               (let st' = st\<lparr>track := track st @ [new_clip],
                              current_tc := current_tc st + next_clip_frames\<rparr>
                in case bnd (getitem c ''mixEffectBlocks'') getitem0 of
                     Inl e \<Rightarrow> Inl (e, track st')
                   | Inr block \<Rightarrow>
                       (case contains_str ''source'' block of
                          Inl e \<Rightarrow> Inl (e, track st')
                        | Inr has_source \<Rightarrow>
                            if has_source
                            then (case getitem block ''source'' of
                                    Inl e \<Rightarrow> Inl (e, track st')
                                  | Inr s \<Rightarrow> Inr (True, st'\<lparr>current_source := s\<rparr>))
                            else Inr (False, st')))))"

text \<open>Lines 82 to 105: the loop runs the body on every switch in order and stops at the
  first \<^verbatim>\<open>break\<close>; its result is the track.\<close>

fun switch_loop ::
  "(json \<Rightarrow> int \<Rightarrow> error + int) \<Rightarrow> int \<Rightarrow> int \<Rightarrow> extrefs \<Rightarrow> loop_state \<Rightarrow> json list \<Rightarrow>
     failure + clip list" where
  "switch_loop from_timecode rate tc_ref extrefs st [] = Inr (track st)"
| "switch_loop from_timecode rate tc_ref extrefs st (c # cs) =
     (case switch_body from_timecode rate tc_ref extrefs st c of
        Inl f \<Rightarrow> Inl f
      | Inr (go_on, st') \<Rightarrow>
          if go_on then switch_loop from_timecode rate tc_ref extrefs st' cs
          else Inr (track st'))"

text \<open>Lines 32 to 107 on the decoded header and events.\<close>

definition reconstruct ::
  "(json \<Rightarrow> int \<Rightarrow> error + int) \<Rightarrow> string \<Rightarrow> json \<Rightarrow> json list \<Rightarrow> failure + timeline" where
  "reconstruct from_timecode filepath metadata timeline_data =
     (case prepare from_timecode metadata timeline_data of
        Inl e \<Rightarrow> Inl (e, [])
      | Inr (rate, tc_ref, extrefs, source0) \<Rightarrow>
          (case switch_loop from_timecode rate tc_ref extrefs
                  \<lparr>current_tc = 0, current_source = source0, track = []\<rparr>
                  timeline_data of
             Inl f \<Rightarrow> Inl f
           | Inr clips \<Rightarrow>
               Inr \<lparr>timeline_name = basename (take (length filepath - 4) filepath),
                    track_name = ''Main Mix'',
                    timeline_rate = rate,
                    track_clips = clips\<rparr>))"

definition read_from_file ::
  "(string \<Rightarrow> json option) \<Rightarrow> (json \<Rightarrow> int \<Rightarrow> error + int) \<Rightarrow> string \<Rightarrow> string list \<Rightarrow>
     failure + timeline" where
  "read_from_file decode from_timecode filepath lines =
     (case json_loads decode (strip (readline lines)) of
        Inl e \<Rightarrow> Inl (e, [])
      | Inr metadata \<Rightarrow>
          (case decode_events decode [] (remaining_lines lines) of
             Inl e \<Rightarrow> Inl (e, [])
           | Inr timeline_data \<Rightarrow>
               reconstruct from_timecode filepath metadata timeline_data))"

section \<open>Vocabulary of the properties\<close>

text \<open>A list of clips is contiguous from \<open>s\<close> when the first clip starts at \<open>s\<close> and
  every clip starts where the one before it ends.\<close>

fun contiguous_from :: "int \<Rightarrow> clip list \<Rightarrow> bool" where
  "contiguous_from s [] = True"
| "contiguous_from s (c # cs) =
     (range_start c = s \<and> contiguous_from (s + range_duration c) cs)"

text \<open>What line 102 tests on a switch \<open>c\<close>, and what line 103 reads from it.\<close>

definition source_test :: "json \<Rightarrow> error + bool" where
  "source_test c = bnd (bnd (getitem c ''mixEffectBlocks'') getitem0) (contains_str ''source'')"

definition names_source :: "json \<Rightarrow> bool" where
  "names_source c = (source_test c = Inr True)"

definition named_source :: "json \<Rightarrow> error + json" where
  "named_source c =
     bnd (bnd (getitem c ''mixEffectBlocks'') getitem0) (\<lambda>block. getitem block ''source'')"


text \<open>The frame of a switch: its timecode at the rate, as line 84 computes it.\<close>

definition switch_frame :: "(json \<Rightarrow> int \<Rightarrow> error + int) \<Rightarrow> int \<Rightarrow> json \<Rightarrow> error + int" where
  "switch_frame from_timecode rate c =
     bnd (getitem c ''masterTimecode'') (\<lambda>t. from_timecode t rate)"

section \<open>A recorded show\<close>

text \<open>
  The concrete inputs of the evaluations below. \<open>timecode_25\<close> stands for the library's
  \<^verbatim>\<open>from_timecode\<close> at 25 frames per second on timecodes written
  \<^verbatim>\<open>HH:MM:SS:FF\<close> in decimal digits, the only ones it is applied to here:
  \<open>((HH * 60 + MM) * 60 + SS) * 25 + FF\<close> frames.
\<close>

definition digits_nat :: "string \<Rightarrow> nat option" where
  "digits_nat s =
     (if s \<noteq> [] \<and> list_all is_digit s
      then Some (foldl (\<lambda>n c. 10 * n + digit_val c) 0 s) else None)"

definition timecode_25 :: "json \<Rightarrow> int \<Rightarrow> error + int" where
  "timecode_25 t rate =
     (case t of
        JStr s \<Rightarrow>
          (if rate \<noteq> 25 then Inl ValueError
           else case map digits_nat (split_on CHR '':'' s) of
                  [Some h, Some m, Some sec, Some f] \<Rightarrow>
                    if f < 25 then Inr (int (((h * 60 + m) * 60 + sec) * 25 + f))
                    else Inl ValueError
                | _ \<Rightarrow> Inl ValueError)
      | _ \<Rightarrow> Inl TypeError)"

text \<open>The header: the show starts at 01:00:00:00, in 1080p25, with three sources, the
  first of them without a file, and source 0 on air.\<close>

definition show_header_text :: string where
  \<open>show_header_text = ''{"masterTimecode": "01:00:00:00", "videoMode": "1080p25", "sources": [{"_index_": 0, "name": "Black"}, {"_index_": 1, "name": "Cam1", "file": "c1.mov"}, {"_index_": 2, "name": "Cam2", "file": "c2.mov"}], "mixEffectBlocks": [{"source": 0}]}''\<close>

definition show_sources :: json where
  "show_sources = JArr
     [JObj [(''_index_'', JInt 0), (''name'', JStr ''Black'')],
      JObj [(''_index_'', JInt 1), (''name'', JStr ''Cam1''), (''file'', JStr ''c1.mov'')],
      JObj [(''_index_'', JInt 2), (''name'', JStr ''Cam2''), (''file'', JStr ''c2.mov'')]]"

definition show_header :: json where
  "show_header = JObj
     [(''masterTimecode'', JStr ''01:00:00:00''), (''videoMode'', JStr ''1080p25''),
      (''sources'', show_sources),
      (''mixEffectBlocks'', JArr [JObj [(''source'', JInt 0)]])]"

text \<open>The switches: to source 2 after one second, to source 1 after two, the end of the
  show (no source) after three; and a switch written after the end, and one to a source
  that is not in the header.\<close>

definition cut_a_text :: string where
  \<open>cut_a_text = ''{"masterTimecode": "01:00:01:00", "mixEffectBlocks": [{"source": 2}]}''\<close>

definition cut_a :: json where
  "cut_a = JObj [(''masterTimecode'', JStr ''01:00:01:00''),
                 (''mixEffectBlocks'', JArr [JObj [(''source'', JInt 2)]])]"

definition cut_b_text :: string where
  \<open>cut_b_text = ''{"masterTimecode": "01:00:02:00", "mixEffectBlocks": [{"source": 1}]}''\<close>

definition cut_b :: json where
  "cut_b = JObj [(''masterTimecode'', JStr ''01:00:02:00''),
                 (''mixEffectBlocks'', JArr [JObj [(''source'', JInt 1)]])]"

definition show_end_text :: string where
  \<open>show_end_text = ''{"masterTimecode": "01:00:03:00", "mixEffectBlocks": [{}]}''\<close>

definition show_end :: json where
  "show_end = JObj [(''masterTimecode'', JStr ''01:00:03:00''),
                    (''mixEffectBlocks'', JArr [JObj []])]"

definition late_cut_text :: string where
  \<open>late_cut_text = ''{"masterTimecode": "01:00:04:00", "mixEffectBlocks": [{"source": 2}]}''\<close>

definition late_cut :: json where
  "late_cut = JObj [(''masterTimecode'', JStr ''01:00:04:00''),
                    (''mixEffectBlocks'', JArr [JObj [(''source'', JInt 2)]])]"

text \<open>A switch written after the end whose timecode is not one.\<close>

definition bad_late :: json where
  "bad_late = JObj [(''masterTimecode'', JStr ''late''),
                    (''mixEffectBlocks'', JArr [JObj [(''source'', JInt 2)]])]"

text \<open>An end of the show written without \<^verbatim>\<open>mixEffectBlocks\<close>.\<close>

definition bare_end :: json where
  "bare_end = JObj [(''masterTimecode'', JStr ''01:00:03:00'')]"

definition cut_x_text :: string where
  \<open>cut_x_text = ''{"masterTimecode": "01:00:02:00", "mixEffectBlocks": [{"source": 7}]}''\<close>

definition cut_x :: json where
  "cut_x = JObj [(''masterTimecode'', JStr ''01:00:02:00''),
                 (''mixEffectBlocks'', JArr [JObj [(''source'', JInt 7)]])]"

text \<open>A line that was cut short, which is not JSON.\<close>

definition broken_text :: string where
  \<open>broken_text = ''{"masterTimecode": "01:00''\<close>

text \<open>Three more headers: one whose \<^verbatim>\<open>mixEffectBlocks\<close> is the empty array, one
  without \<^verbatim>\<open>sources\<close>, one whose \<^verbatim>\<open>sources\<close> is the empty array.\<close>

definition no_blocks_header_text :: string where
  \<open>no_blocks_header_text = ''{"masterTimecode": "01:00:00:00", "videoMode": "1080p25", "sources": [{"_index_": 0, "name": "Black"}], "mixEffectBlocks": []}''\<close>

definition no_blocks_header :: json where
  "no_blocks_header = JObj
     [(''masterTimecode'', JStr ''01:00:00:00''), (''videoMode'', JStr ''1080p25''),
      (''sources'', JArr [JObj [(''_index_'', JInt 0), (''name'', JStr ''Black'')]]),
      (''mixEffectBlocks'', JArr [])]"

definition no_sources_header_text :: string where
  \<open>no_sources_header_text = ''{"masterTimecode": "01:00:00:00", "videoMode": "1080p25", "mixEffectBlocks": [{"source": 0}]}''\<close>

definition no_sources_fields :: "(string \<times> json) list" where
  "no_sources_fields =
     [(''masterTimecode'', JStr ''01:00:00:00''), (''videoMode'', JStr ''1080p25''),
      (''mixEffectBlocks'', JArr [JObj [(''source'', JInt 0)]])]"

definition empty_sources_header_text :: string where
  \<open>empty_sources_header_text = ''{"masterTimecode": "01:00:00:00", "videoMode": "1080p25", "sources": [], "mixEffectBlocks": [{"source": 0}]}''\<close>

definition empty_sources_fields :: "(string \<times> json) list" where
  "empty_sources_fields =
     [(''masterTimecode'', JStr ''01:00:00:00''), (''videoMode'', JStr ''1080p25''),
      (''sources'', JArr []),
      (''mixEffectBlocks'', JArr [JObj [(''source'', JInt 0)]])]"

text \<open>And the fields of a header without \<^verbatim>\<open>mixEffectBlocks\<close>.\<close>

definition no_mix_fields :: "(string \<times> json) list" where
  "no_mix_fields =
     [(''masterTimecode'', JStr ''01:00:00:00''), (''videoMode'', JStr ''1080p25''),
      (''sources'', show_sources)]"

text \<open>The decoder on these lines: each text with the value it denotes; any other text,
  such as \<^verbatim>\<open>{"masterTimecode":\<close> cut short, is not in the table.\<close>

definition show_decode :: "string \<Rightarrow> json option" where
  "show_decode = map_of
     [(show_header_text, show_header),
      (cut_a_text, cut_a),
      (cut_b_text, cut_b),
      (show_end_text, show_end),
      (late_cut_text, late_cut),
      (cut_x_text, cut_x),
      (no_blocks_header_text, no_blocks_header),
      (no_sources_header_text, JObj no_sources_fields),
      (empty_sources_header_text, JObj empty_sources_fields)]"

definition text_line :: "string \<Rightarrow> string" where
  "text_line s = s @ [CHR 0x0A]"

definition show_file :: "string list" where
  "show_file = map text_line [show_header_text, cut_a_text, cut_b_text, show_end_text]"

text \<open>What the function makes of the show, when the last line of the file is \<open>d\<close> frames
  after the start: the files' available range has this duration.\<close>

definition show_extrefs :: "int \<Rightarrow> extrefs" where
  "show_extrefs d =
     [(JInt 0, \<lparr>src_fields = [(''_index_'', JInt 0), (''name'', JStr ''Black'')],
                src_ref = None\<rparr>),
      (JInt 1, \<lparr>src_fields = [(''_index_'', JInt 1), (''name'', JStr ''Cam1''),
                              (''file'', JStr ''c1.mov'')],
                src_ref = Some \<lparr>target_url = ''c1.mov'', available_start = 0,
                                 available_duration = d\<rparr>\<rparr>),
      (JInt 2, \<lparr>src_fields = [(''_index_'', JInt 2), (''name'', JStr ''Cam2''),
                              (''file'', JStr ''c2.mov'')],
                src_ref = Some \<lparr>target_url = ''c2.mov'', available_start = 0,
                                 available_duration = d\<rparr>\<rparr>)]"

definition show_clips :: "int \<Rightarrow> clip list" where
  "show_clips d =
     [\<lparr>clip_name = ''Black'', media_reference = None,
       range_start = 0, range_duration = 25\<rparr>,
      \<lparr>clip_name = ''Cam2'',
       media_reference = Some \<lparr>target_url = ''c2.mov'', available_start = 0,
                                available_duration = d\<rparr>,
       range_start = 25, range_duration = 50\<rparr>,
      \<lparr>clip_name = ''Cam1'',
       media_reference = Some \<lparr>target_url = ''c1.mov'', available_start = 0,
                                available_duration = d\<rparr>,
       range_start = 75, range_duration = 75\<rparr>]"

definition show_timeline :: "int \<Rightarrow> timeline" where
  "show_timeline d = \<lparr>timeline_name = ''show'', track_name = ''Main Mix'',
                       timeline_rate = 25, track_clips = show_clips d\<rparr>"

section \<open>Evaluation on the recorded show\<close>

lemma bnd_simps [simp]: "bnd (Inl e) f = Inl e" "bnd (Inr x) f = f x"
  by (simp_all add: bnd_def)

lemmas py_defs = video_rate_def py_int_def int_isspace_def strip_def py_isspace_def
  int_literal_def is_digit_def digit_val_def Let_def dict_item_def key_eq_def
  initial_source_def timecode_25_def digits_nat_def basename_def

lemmas show_events_defs = cut_a_def cut_b_def show_end_def late_cut_def cut_x_def
  bad_late_def bare_end_def

lemmas show_text_defs = show_header_text_def cut_a_text_def cut_b_text_def show_end_text_def
  late_cut_text_def cut_x_text_def no_blocks_header_text_def no_sources_header_text_def
  empty_sources_header_text_def

lemma strip_text_line:
  assumes "s \<noteq> []" "\<not> py_isspace (hd s)" "\<not> py_isspace (last s)"
  shows "strip (text_line s) = s"
proof -
  have nl: "py_isspace (CHR 0x0A)" by (simp add: py_isspace_def)
  have a: "dropWhile py_isspace (text_line s) = text_line s"
    using assms(1,2) by (cases s) (simp_all add: text_line_def)
  have "dropWhile py_isspace (rev s) = rev s"
    using assms(1,3) by (cases s rule: rev_cases) simp_all
  then have b: "dropWhile py_isspace (rev (text_line s)) = rev s"
    using nl by (simp add: text_line_def)
  show ?thesis by (simp add: strip_def a b)
qed

lemma strip_show_lines:
  "strip (text_line show_header_text) = show_header_text"
  "strip (text_line cut_a_text) = cut_a_text"
  "strip (text_line cut_b_text) = cut_b_text"
  "strip (text_line show_end_text) = show_end_text"
  "strip (text_line late_cut_text) = late_cut_text"
  "strip (text_line cut_x_text) = cut_x_text"
  "strip (text_line no_blocks_header_text) = no_blocks_header_text"
  "strip (text_line no_sources_header_text) = no_sources_header_text"
  "strip (text_line empty_sources_header_text) = empty_sources_header_text"
  by (rule strip_text_line; simp add: show_text_defs py_isspace_def)+

lemma loads_show_lines:
  "json_loads show_decode show_header_text = Inr show_header"
  "json_loads show_decode cut_a_text = Inr cut_a"
  "json_loads show_decode cut_b_text = Inr cut_b"
  "json_loads show_decode show_end_text = Inr show_end"
  "json_loads show_decode late_cut_text = Inr late_cut"
  "json_loads show_decode cut_x_text = Inr cut_x"
  "json_loads show_decode no_blocks_header_text = Inr no_blocks_header"
  "json_loads show_decode no_sources_header_text = Inr (JObj no_sources_fields)"
  "json_loads show_decode empty_sources_header_text = Inr (JObj empty_sources_fields)"
  by (simp_all add: json_loads_def show_decode_def show_text_defs)

lemma prepare_show:
  "prepare timecode_25 show_header [cut_a, cut_b, show_end]
   = Inr (25, 90000, show_extrefs 75, JInt 0)"
  by (simp add: prepare_def show_header_def show_sources_def show_events_defs
        show_extrefs_def py_defs)

lemma switch_loop_show:
  "switch_loop timecode_25 25 90000 (show_extrefs d)
     \<lparr>current_tc = 0, current_source = JInt 0, track = []\<rparr> [cut_a, cut_b, show_end]
   = Inr (show_clips d)"
  by (simp add: switch_body_def show_events_defs show_extrefs_def show_clips_def py_defs)

lemma reconstruct_show:
  "reconstruct timecode_25 ''rec/show.drp'' show_header [cut_a, cut_b, show_end]
   = Inr (show_timeline 75)"
  by (simp add: reconstruct_def prepare_show switch_loop_show show_timeline_def basename_def
        del: switch_loop.simps)

lemma read_show_file:
  "read_from_file show_decode timecode_25 ''rec/show.drp'' show_file = Inr (show_timeline 75)"
  by (simp add: read_from_file_def show_file_def readline_def remaining_lines_def
        strip_show_lines loads_show_lines reconstruct_show)

section \<open>The loop over the switches\<close>

lemma clip_of_Inr:
  "clip_of nm ref s d = Inr cl \<Longrightarrow>
   \<exists>n. nm = JStr n \<and>
       cl = \<lparr>clip_name = n, media_reference = ref, range_start = s, range_duration = d\<rparr>"
  by (cases nm) auto

lemma switch_body_appends:
  assumes "switch_body f r t ex st c = Inr (b, st')"
  shows "\<exists>cl. track st' = track st @ [cl] \<and> range_start cl = current_tc st
           \<and> current_tc st' = current_tc st + range_duration cl"
  using assms
  by (auto simp: switch_body_def Let_def bnd_def split: sum.splits if_splits
        dest!: clip_of_Inr)

lemma contiguous_from_snoc:
  "contiguous_from s (cs @ [c]) =
     (contiguous_from s cs \<and> range_start c = s + sum_list (map range_duration cs))"
  by (induction cs arbitrary: s) (auto simp: algebra_simps)

lemma switch_loop_contiguous:
  "switch_loop f r t ex st evs = Inr clips \<Longrightarrow> contiguous_from 0 (track st) \<Longrightarrow>
   current_tc st = sum_list (map range_duration (track st)) \<Longrightarrow> contiguous_from 0 clips"
proof (induction evs arbitrary: st)
  case Nil
  then show ?case by simp
next
  case (Cons c cs)
  from Cons.prems(1) obtain b st' where body: "switch_body f r t ex st c = Inr (b, st')"
    by (auto split: sum.splits)
  from switch_body_appends [OF body] obtain cl where
    cl: "track st' = track st @ [cl]" "range_start cl = current_tc st"
        "current_tc st' = current_tc st + range_duration cl"
    by blast
  have inv: "contiguous_from 0 (track st')"
    "current_tc st' = sum_list (map range_duration (track st'))"
    using cl Cons.prems(2,3) by (simp_all add: contiguous_from_snoc)
  show ?case
  proof (cases b)
    case True
    with body Cons.prems(1) have "switch_loop f r t ex st' cs = Inr clips" by simp
    from Cons.IH [OF this inv] show ?thesis .
  next
    case False
    with body Cons.prems(1) have "clips = track st'" by simp
    with inv show ?thesis by simp
  qed
qed

lemma contiguous_from_index:
  "contiguous_from s cs \<Longrightarrow> (cs \<noteq> [] \<longrightarrow> range_start (cs ! 0) = s) \<and>
     (\<forall>i. Suc i < length cs \<longrightarrow>
        range_start (cs ! Suc i) = range_start (cs ! i) + range_duration (cs ! i))"
proof (induction cs arbitrary: s)
  case Nil
  then show ?case by simp
next
  case (Cons c cs)
  then have c: "range_start c = s" and rest: "contiguous_from (s + range_duration c) cs"
    by simp_all
  from Cons.IH [OF rest] have
    h: "cs \<noteq> [] \<longrightarrow> range_start (cs ! 0) = s + range_duration c"
    and t: "\<forall>i. Suc i < length cs \<longrightarrow>
        range_start (cs ! Suc i) = range_start (cs ! i) + range_duration (cs ! i)"
    by simp_all
  show ?case
  proof (intro conjI allI impI)
    show "range_start ((c # cs) ! 0) = s" using c by simp
  next
    fix i assume i: "Suc i < length (c # cs)"
    show "range_start ((c # cs) ! Suc i) =
            range_start ((c # cs) ! i) + range_duration ((c # cs) ! i)"
    proof (cases i)
      case 0
      with i h c show ?thesis by auto
    next
      case (Suc j)
      with i t show ?thesis by auto
    qed
  qed
qed

lemma read_from_file_Inr:
  assumes "read_from_file decode ftc path lines = Inr tml"
  shows "\<exists>md evs rate tc_ref ex s0.
           json_loads decode (strip (readline lines)) = Inr md \<and>
           decode_events decode [] (remaining_lines lines) = Inr evs \<and>
           prepare ftc md evs = Inr (rate, tc_ref, ex, s0) \<and>
           switch_loop ftc rate tc_ref ex
             \<lparr>current_tc = 0, current_source = s0, track = []\<rparr> evs = Inr (track_clips tml)"
proof -
  from assms obtain md evs where
    d: "json_loads decode (strip (readline lines)) = Inr md"
       "decode_events decode [] (remaining_lines lines) = Inr evs"
    and r: "reconstruct ftc path md evs = Inr tml"
    by (auto simp: read_from_file_def split: sum.splits)
  from r obtain rate tc_ref ex s0 where
    p: "prepare ftc md evs = Inr (rate, tc_ref, ex, s0)"
    by (auto simp: reconstruct_def split: sum.splits prod.splits)
  with r have "switch_loop ftc rate tc_ref ex
      \<lparr>current_tc = 0, current_source = s0, track = []\<rparr> evs = Inr (track_clips tml)"
    by (auto simp: reconstruct_def split: sum.splits)
  with d p show ?thesis by blast
qed

subsection \<open>The clips are contiguous\<close>

text \<open>
  C3. Whenever the conversion returns a timeline, its clips are contiguous and do not
  overlap: the first clip starts at frame 0, and every later clip starts at the start
  plus the duration of the clip before it.
\<close>

theorem clips_contiguous:
  assumes "read_from_file decode from_timecode filepath lines = Inr tml"
  shows "(track_clips tml \<noteq> [] \<longrightarrow> range_start (track_clips tml ! 0) = 0) \<and>
         (\<forall>i. Suc i < length (track_clips tml) \<longrightarrow>
            range_start (track_clips tml ! Suc i) =
              range_start (track_clips tml ! i) + range_duration (track_clips tml ! i))"
proof -
  from read_from_file_Inr [OF assms] obtain evs rate tc_ref ex s0 where
    "switch_loop from_timecode rate tc_ref ex
       \<lparr>current_tc = 0, current_source = s0, track = []\<rparr> evs = Inr (track_clips tml)"
    by blast
  then have "contiguous_from 0 (track_clips tml)"
    by (rule switch_loop_contiguous) simp_all
  then show ?thesis by (rule contiguous_from_index)
qed

theorem clips_contiguous_witness:
  "read_from_file show_decode timecode_25 ''rec/show.drp'' show_file = Inr (show_timeline 75) \<and>
   length (track_clips (show_timeline 75)) = 3 \<and>
   range_start (track_clips (show_timeline 75) ! 0) = 0 \<and>
   range_start (track_clips (show_timeline 75) ! 1) =
     range_start (track_clips (show_timeline 75) ! 0) + range_duration (track_clips (show_timeline 75) ! 0) \<and>
   range_start (track_clips (show_timeline 75) ! 2) =
     range_start (track_clips (show_timeline 75) ! 1) + range_duration (track_clips (show_timeline 75) ! 1)"
proof -
  note c = clips_contiguous [OF read_show_file]
  have n: "length (track_clips (show_timeline 75)) = 3"
    by (simp add: show_timeline_def show_clips_def)
  from c n have "range_start (track_clips (show_timeline 75) ! 0) = 0" by auto
  moreover from c n have "range_start (track_clips (show_timeline 75) ! Suc 0) =
     range_start (track_clips (show_timeline 75) ! 0) + range_duration (track_clips (show_timeline 75) ! 0)"
    by simp
  moreover from c n have "range_start (track_clips (show_timeline 75) ! Suc (Suc 0)) =
     range_start (track_clips (show_timeline 75) ! Suc 0)
       + range_duration (track_clips (show_timeline 75) ! Suc 0)"
    by simp
  ultimately show ?thesis using read_show_file n by (simp add: numeral_2_eq_2)
qed

subsection \<open>Where the loop stops\<close>

lemma switch_body_go:
  assumes "switch_body f r t ex st c = Inr (b, st')"
  shows "b = names_source c"
    and "b \<Longrightarrow> named_source c = Inr (current_source st')"
    and "\<not> b \<Longrightarrow> source_test c = Inr False"
  using assms
  by (auto simp: switch_body_def names_source_def named_source_def source_test_def
        Let_def bnd_def split: sum.splits if_splits)

lemma switch_body_length:
  assumes "switch_body f r t ex st c = Inr (b, st')"
  shows "length (track st') = Suc (length (track st))"
  using switch_body_appends [OF assms] by auto

lemma switch_loop_count:
  "switch_loop f r t ex st evs = Inr clips \<Longrightarrow>
   length clips =
     length (track st) + min (length evs) (Suc (length (takeWhile names_source evs)))"
proof (induction evs arbitrary: st)
  case Nil
  then show ?case by simp
next
  case (Cons c cs)
  from Cons.prems obtain b st' where body: "switch_body f r t ex st c = Inr (b, st')"
    by (auto split: sum.splits)
  note len = switch_body_length [OF body] and go = switch_body_go(1) [OF body]
  show ?case
  proof (cases b)
    case True
    with body Cons.prems have "switch_loop f r t ex st' cs = Inr clips" by simp
    from Cons.IH [OF this] len True go show ?thesis by simp
  next
    case False
    with body Cons.prems have "clips = track st'" by simp
    with len False go show ?thesis by simp
  qed
qed


lemma switch_loop_prefix:
  "list_all names_source pre \<Longrightarrow> switch_loop f r t ex st pre = Inr clips \<Longrightarrow>
   \<exists>st'. track st' = clips \<and>
     (if pre = [] then Inr (current_source st) else named_source (last pre))
        = Inr (current_source st') \<and>
     (\<forall>rest. switch_loop f r t ex st (pre @ rest) = switch_loop f r t ex st' rest)"
proof (induction pre arbitrary: st)
  case Nil
  then show ?case by auto
next
  case (Cons c cs)
  from Cons.prems(2) obtain b st1 where body: "switch_body f r t ex st c = Inr (b, st1)"
    by (auto split: sum.splits)
  from switch_body_go(1) [OF body] Cons.prems(1) have b: "b" by simp
  from switch_body_go(2) [OF body b] have src: "named_source c = Inr (current_source st1)" .
  from body b Cons.prems(2) have loop: "switch_loop f r t ex st1 cs = Inr clips" by simp
  from Cons.prems(1) have "list_all names_source cs" by simp
  from Cons.IH [OF this loop] obtain st' where
    st': "track st' = clips"
      "(if cs = [] then Inr (current_source st1) else named_source (last cs))
         = Inr (current_source st')"
      "\<forall>rest. switch_loop f r t ex st1 (cs @ rest) = switch_loop f r t ex st' rest"
    by blast
  have "(if c # cs = [] then Inr (current_source st) else named_source (last (c # cs)))
          = Inr (current_source st')"
    using st'(2) src by (cases "cs = []") simp_all
  moreover have "\<forall>rest. switch_loop f r t ex st ((c # cs) @ rest) = switch_loop f r t ex st' rest"
    using st'(3) body b by simp
  ultimately show ?case using st'(1) by blast
qed

lemma switch_body_unknown_source:
  assumes "switch_frame f r c = Inr frame" "dict_get ex (current_source st) = None"
  shows "switch_body f r t ex st c
           = Inl (if hashable (current_source st) then KeyError else TypeError, track st)"
  using assms by (simp add: switch_body_def switch_frame_def dict_item_def Let_def)






lemma names_source_show:
  "names_source cut_a" "names_source cut_b" "\<not> names_source show_end"
  "names_source late_cut" "names_source cut_x"
  by (simp_all add: names_source_def source_test_def show_events_defs)





lemma switch_loop_show_bad_late:
  "switch_loop timecode_25 25 90000 (show_extrefs d)
     \<lparr>current_tc = 0, current_source = JInt 0, track = []\<rparr>
     [cut_a, cut_b, show_end, bad_late]
   = Inr (show_clips d)"
  by (simp add: switch_body_def show_events_defs show_extrefs_def show_clips_def py_defs)




lemma named_source_show:
  "named_source cut_a = Inr (JInt 2)" "named_source cut_x = Inr (JInt 7)"
  by (simp_all add: named_source_def show_events_defs)

lemma prepare_show_x:
  "prepare timecode_25 show_header [cut_a, cut_x, show_end]
   = Inr (25, 90000, show_extrefs 75, JInt 0)"
  by (simp add: prepare_def show_header_def show_sources_def show_events_defs
        show_extrefs_def py_defs)

lemma switch_loop_show_x:
  "switch_loop timecode_25 25 90000 (show_extrefs 75)
     \<lparr>current_tc = 0, current_source = JInt 0, track = []\<rparr> [cut_a, cut_x]
   = Inr (take 2 (show_clips 75))"
  by (simp add: switch_body_def show_events_defs show_extrefs_def show_clips_def py_defs)

text \<open>
  C10. When the conversion reaches a switch \<open>c\<close> (the switches before it each named a
  source and were turned into clips, and the timecode of \<open>c\<close> converts) while the source
  that is current, the one of the header for the first switch and the one named by the
  switch before otherwise, is not a key of \<^verbatim>\<open>extrefs\<close>, the lookup raises: a
  \<^verbatim>\<open>KeyError\<close> (a \<^verbatim>\<open>TypeError\<close> for an unhashable value). The clip of \<open>c\<close> is
  not appended: the track holds the clips of the switches before \<open>c\<close> only, and no
  timeline is returned.
\<close>

theorem unknown_source_aborts:
  assumes "json_loads decode (strip (readline lines)) = Inr md"
    and "decode_events decode [] (remaining_lines lines) = Inr (pre @ c # post)"
    and "prepare f md (pre @ c # post) = Inr (rate, tc_ref, ex, s0)"
    and "list_all names_source pre"
    and "switch_loop f rate tc_ref ex
           \<lparr>current_tc = 0, current_source = s0, track = []\<rparr> pre = Inr clips"
    and "(if pre = [] then Inr s0 else named_source (last pre)) = Inr k"
    and "switch_frame f rate c = Inr frame"
    and "dict_get ex k = None"
  shows "read_from_file decode f path lines
           = Inl (if hashable k then KeyError else TypeError, clips) \<and>
         length clips = length pre"
proof -
  let ?st = "\<lparr>current_tc = 0, current_source = s0, track = []\<rparr>"
  from switch_loop_prefix [OF assms(4,5)] obtain st' where
    st': "track st' = clips"
      "(if pre = [] then Inr (current_source ?st) else named_source (last pre))
         = Inr (current_source st')"
      "\<forall>rest. switch_loop f rate tc_ref ex ?st (pre @ rest)
               = switch_loop f rate tc_ref ex st' rest"
    by blast
  from st'(2) assms(6) have k: "current_source st' = k" by (cases "pre = []") simp_all
  from switch_body_unknown_source [OF assms(7), of ex st' tc_ref] assms(8) k st'(1)
  have "switch_body f rate tc_ref ex st' c
          = Inl (if hashable k then KeyError else TypeError, clips)"
    by simp
  then have "switch_loop f rate tc_ref ex st' (c # post)
          = Inl (if hashable k then KeyError else TypeError, clips)"
    by simp
  with st'(3) have "switch_loop f rate tc_ref ex ?st (pre @ c # post)
          = Inl (if hashable k then KeyError else TypeError, clips)"
    by simp
  then have "read_from_file decode f path lines
           = Inl (if hashable k then KeyError else TypeError, clips)"
    using assms(1,2,3) by (simp add: read_from_file_def reconstruct_def del: switch_loop.simps)
  moreover from switch_loop_count [OF assms(5)] assms(4)
  have "length clips = length pre"
    by (simp add: takeWhile_eq_all_conv [THEN iffD2] list_all_iff)
  ultimately show ?thesis by simp
qed

theorem unknown_source_aborts_witness:
  "read_from_file show_decode timecode_25 ''rec/show.drp''
     (map text_line [show_header_text, cut_a_text, cut_x_text, show_end_text])
   = Inl (KeyError, take 2 (show_clips 75)) \<and>
   named_source cut_x = Inr (JInt 7) \<and>
   dict_get (show_extrefs 75) (JInt 7) = None \<and>
   length (take 2 (show_clips 75)) = 2"
proof -
  let ?lines = "map text_line [show_header_text, cut_a_text, cut_x_text, show_end_text]"
  have h: "json_loads show_decode (strip (readline ?lines)) = Inr show_header"
    by (simp add: readline_def strip_show_lines loads_show_lines)
  have d: "decode_events show_decode [] (remaining_lines ?lines)
             = Inr ([cut_a, cut_x] @ show_end # [])"
    by (simp add: remaining_lines_def strip_show_lines loads_show_lines)
  have p: "prepare timecode_25 show_header ([cut_a, cut_x] @ show_end # [])
             = Inr (25, 90000, show_extrefs 75, JInt 0)"
    using prepare_show_x by simp
  have n: "list_all names_source [cut_a, cut_x]" by (simp add: names_source_show)
  have k: "(if [cut_a, cut_x] = [] then Inr (JInt 0) else named_source (last [cut_a, cut_x]))
             = Inr (JInt 7)"
    by (simp add: named_source_show)
  have fr: "switch_frame timecode_25 25 show_end = Inr 90075"
    by (simp add: switch_frame_def show_end_def py_defs)
  have g: "dict_get (show_extrefs 75) (JInt 7) = None"
    by (simp add: show_extrefs_def key_eq_def)
  from unknown_source_aborts [OF h d p n switch_loop_show_x k fr g, of "''rec/show.drp''"]
  show ?thesis using g by (simp add: named_source_show)
qed

section \<open>Reading the lines\<close>

lemma json_loads_Inl: "json_loads decode s = Inl e \<Longrightarrow> e = JSONDecodeError"
  by (auto simp: json_loads_def split: if_splits option.splits)

lemma json_loads_blank: "json_loads decode [] = Inl JSONDecodeError"
  by (simp add: json_loads_def)

lemma decode_events_bad_line:
  "l \<in> set ls \<Longrightarrow> json_loads decode (strip l) = Inl e \<Longrightarrow>
   decode_events decode acc ls = Inl JSONDecodeError"
proof (induction ls arbitrary: acc)
  case Nil
  then show ?case by simp
next
  case (Cons x xs)
  show ?case
  proof (cases "json_loads decode (strip x)")
    case (Inl e')
    then show ?thesis using json_loads_Inl [OF Inl] by simp
  next
    case (Inr v)
    with Cons.prems have "l \<in> set xs" by auto
    from Cons.IH [OF this Cons.prems(2)] Inr show ?thesis by simp
  qed
qed

lemma decode_events_acc:
  "decode_events decode acc ls = Inr evs \<longleftrightarrow>
     (\<exists>vs. map (\<lambda>l. json_loads decode (strip l)) ls = map Inr vs \<and> evs = acc @ vs)"
proof (induction ls arbitrary: acc)
  case Nil
  then show ?case by auto
next
  case (Cons x xs)
  show ?case
  proof (cases "json_loads decode (strip x)")
    case (Inl e')
    then show ?thesis by (auto simp: map_eq_Cons_conv)
  next
    case (Inr v)
    then show ?thesis using Cons.IH [of "acc @ [v]"]
      by (auto simp: map_eq_Cons_conv)
  qed
qed

lemma read_from_file_bad_line:
  assumes "l \<in> set (remaining_lines lines)" "json_loads decode (strip l) = Inl e"
  shows "read_from_file decode f path lines = Inl (JSONDecodeError, [])"
proof (cases "json_loads decode (strip (readline lines))")
  case (Inl e')
  then show ?thesis using json_loads_Inl [OF Inl] by (simp add: read_from_file_def)
next
  case (Inr md)
  with decode_events_bad_line [OF assms, of "[]"] show ?thesis
    by (simp add: read_from_file_def)
qed

lemma loads_broken: "json_loads show_decode broken_text = Inl JSONDecodeError"
  by (simp add: json_loads_def show_decode_def show_text_defs broken_text_def)

lemma strip_broken: "strip (text_line broken_text) = broken_text"
  by (rule strip_text_line; simp add: broken_text_def py_isspace_def)

lemma strip_newline: "strip [CHR 0x0A] = []"
  by (simp add: strip_def py_isspace_def)

text \<open>
  C9. Every line after the header is decoded before anything is reconstructed: a line
  that is not valid JSON, wherever it stands among them, makes the whole conversion fail
  with the decoder's error and without a clip, also when it comes after the switch that
  ends the show.
\<close>

theorem undecodable_line_aborts:
  assumes "l \<in> set (remaining_lines lines)"
    and "json_loads decode (strip l) = Inl e"
  shows "read_from_file decode f path lines = Inl (JSONDecodeError, [])"
  using assms by (rule read_from_file_bad_line)

theorem undecodable_line_aborts_witness:
  "read_from_file show_decode timecode_25 ''rec/show.drp'' show_file
     = Inr (show_timeline 75) \<and>
   \<not> names_source show_end \<and>
   json_loads show_decode (strip (text_line broken_text)) = Inl JSONDecodeError \<and>
   read_from_file show_decode timecode_25 ''rec/show.drp''
     (show_file @ [text_line broken_text]) = Inl (JSONDecodeError, [])"
proof -
  have b: "json_loads show_decode (strip (text_line broken_text)) = Inl JSONDecodeError"
    by (simp add: strip_broken loads_broken)
  have m: "text_line broken_text \<in> set (remaining_lines (show_file @ [text_line broken_text]))"
    by (simp add: remaining_lines_def show_file_def)
  from undecodable_line_aborts [OF m b, of timecode_25 "''rec/show.drp''"]
  show ?thesis using read_show_file b names_source_show(3) by simp
qed

text \<open>
  C8, as the function has it. No line is skipped: every line after the header, blank or
  not, is stripped and decoded, in file order. The events are the decoded lines when each
  of them decodes, and a blank line, which is not valid JSON, makes the conversion fail
  with the decoder's error and without a clip.
\<close>

theorem every_line_is_decoded:
  "(decode_events decode [] ls = Inr evs \<longleftrightarrow>
      map (\<lambda>l. json_loads decode (strip l)) ls = map Inr evs) \<and>
   (l \<in> set (remaining_lines lines) \<and> strip l = [] \<longrightarrow>
      read_from_file decode f path lines = Inl (JSONDecodeError, []))"
proof (intro conjI impI)
  show "decode_events decode [] ls = Inr evs \<longleftrightarrow>
      map (\<lambda>l. json_loads decode (strip l)) ls = map Inr evs"
    using decode_events_acc [of decode "[]" ls evs] by (auto simp: inj_map_eq_map)
next
  assume a: "l \<in> set (remaining_lines lines) \<and> strip l = []"
  then have "json_loads decode (strip l) = Inl JSONDecodeError"
    by (simp add: json_loads_blank)
  with a show "read_from_file decode f path lines = Inl (JSONDecodeError, [])"
    by (blast intro: read_from_file_bad_line)
qed

theorem every_line_is_decoded_witness:
  "decode_events show_decode [] (map text_line [cut_a_text, cut_b_text, show_end_text])
     = Inr [cut_a, cut_b, show_end] \<and>
   map (\<lambda>l. json_loads show_decode (strip l))
       (map text_line [cut_a_text, cut_b_text, show_end_text])
     = map Inr [cut_a, cut_b, show_end] \<and>
   strip [CHR 0x0A] = [] \<and>
   read_from_file show_decode timecode_25 ''rec/show.drp''
     [text_line show_header_text, text_line cut_a_text, [CHR 0x0A], text_line show_end_text]
     = Inl (JSONDecodeError, [])"
proof -
  let ?ls = "map text_line [cut_a_text, cut_b_text, show_end_text]"
  let ?file = "[text_line show_header_text, text_line cut_a_text, [CHR 0x0A],
                text_line show_end_text]"
  have m: "map (\<lambda>l. json_loads show_decode (strip l)) ?ls = map Inr [cut_a, cut_b, show_end]"
    by (simp add: strip_show_lines loads_show_lines)
  have b: "[CHR 0x0A] \<in> set (remaining_lines ?file) \<and> strip [CHR 0x0A] = []"
    by (simp add: remaining_lines_def strip_newline)
  note th = every_line_is_decoded [of show_decode ?ls "[cut_a, cut_b, show_end]"
      "[CHR 0x0A]" ?file timecode_25 "''rec/show.drp''"]
  from th m have "decode_events show_decode [] ?ls = Inr [cut_a, cut_b, show_end]" by blast
  moreover from th b have "read_from_file show_decode timecode_25 ''rec/show.drp'' ?file
      = Inl (JSONDecodeError, [])" by blast
  ultimately show ?thesis using m b by blast
qed

text \<open>The claim as the specification states it fails on a file with a blank line between
  two switches: were the blank line skipped, the events would be the two switches and the
  conversion would return two clips; the function raises the decoder's error instead.\<close>

theorem blank_line_counterexample:
  "decode_events show_decode []
      (filter (\<lambda>l. strip l \<noteq> []) [text_line cut_a_text, [CHR 0x0A], text_line show_end_text])
     = Inr [cut_a, show_end] \<and>
   decode_events show_decode [] [text_line cut_a_text, [CHR 0x0A], text_line show_end_text]
     = Inl JSONDecodeError \<and>
   read_from_file show_decode timecode_25 ''rec/show.drp''
     [text_line show_header_text, text_line cut_a_text, [CHR 0x0A], text_line show_end_text]
     = Inl (JSONDecodeError, [])"
proof -
  have ne: "cut_a_text \<noteq> []" "show_end_text \<noteq> []"
    by (simp_all add: cut_a_text_def show_end_text_def)
  show ?thesis
    by (simp add: strip_show_lines loads_show_lines strip_newline json_loads_blank
          read_from_file_def readline_def remaining_lines_def ne)
qed

section \<open>Headers and files the function refuses\<close>

lemma prepare_no_events: "\<exists>e. prepare f md [] = Inl e"
  by (auto simp: prepare_def bnd_def split: sum.splits)

lemma prepare_no_events_IndexError:
  assumes "getitem md ''masterTimecode'' = Inr mt" "video_rate md = Inr rate"
    "contains_str ''sources'' md = Inr True" "f mt rate = Inr tc_ref"
  shows "prepare f md [] = Inl IndexError"
  using assms by (simp add: prepare_def)

lemma reconstruct_no_events: "\<exists>e. reconstruct f path md [] = Inl (e, [])"
  using prepare_no_events [of f md] by (auto simp: reconstruct_def)

lemma read_from_file_no_events:
  assumes "remaining_lines lines = []"
  shows "\<exists>e. read_from_file decode f path lines = Inl (e, [])"
  using reconstruct_no_events [of f path] assms
  by (auto simp: read_from_file_def split: sum.splits)

lemma prepare_Inr_sources:
  assumes "prepare f (JObj kvs) evs = Inr (rate, tc_ref, ex, s0)"
  shows "evs \<noteq> []" and "map_of kvs ''sources'' \<noteq> None"
    and "map_of kvs ''sources'' = Some (JArr []) \<Longrightarrow> ex = []"
  using assms
  by (auto simp: prepare_def bnd_def split: sum.splits if_splits option.splits)

lemma prepare_no_sources:
  assumes "map_of kvs ''sources'' = None"
    "getitem (JObj kvs) ''masterTimecode'' = Inr mt" "video_rate (JObj kvs) = Inr rate"
  shows "prepare f (JObj kvs) evs = Inl NoSources"
  using assms by (simp add: prepare_def)

lemma switch_body_no_extrefs: "\<exists>e. switch_body f r t [] st c = Inl (e, track st)"
  by (auto simp: switch_body_def dict_item_def bnd_def Let_def split: sum.splits)

lemma switch_loop_no_extrefs:
  "evs \<noteq> [] \<Longrightarrow> \<exists>e. switch_loop f r t [] st evs = Inl (e, track st)"
  using switch_body_no_extrefs [of f r t st "hd evs"] by (cases evs) auto

lemma reconstruct_without_sources:
  assumes "map_of kvs ''sources'' = None \<or> map_of kvs ''sources'' = Some (JArr [])"
  shows "\<exists>e. reconstruct f path (JObj kvs) evs = Inl (e, [])"
proof (cases "prepare f (JObj kvs) evs")
  case (Inl e)
  then show ?thesis by (simp add: reconstruct_def)
next
  case (Inr p)
  obtain rate tc_ref ex s0 where p: "p = (rate, tc_ref, ex, s0)" by (cases p) auto
  note facts = prepare_Inr_sources [OF Inr [unfolded p]]
  from facts(2) assms have "map_of kvs ''sources'' = Some (JArr [])" by auto
  with facts(3) have ex: "ex = []" by simp
  from switch_loop_no_extrefs [OF facts(1), of f rate tc_ref
      "\<lparr>current_tc = 0, current_source = s0, track = []\<rparr>"]
  show ?thesis using Inr p ex by (auto simp: reconstruct_def simp del: switch_loop.simps)
qed

text \<open>
  C6. A file with the header line only (or with no line at all) has no event, and the
  conversion fails before any clip is made: it returns no timeline. When the header is
  good up to there (reference timecode, video mode and sources), the failure is the
  \<^verbatim>\<open>IndexError\<close> of \<^verbatim>\<open>timeline_data[-1]\<close> on the empty list.
\<close>

theorem no_events_fails:
  "(\<exists>e. read_from_file decode f path [l] = Inl (e, [])) \<and>
   (\<exists>e. read_from_file decode f path [] = Inl (e, [])) \<and>
   (getitem md ''masterTimecode'' = Inr mt \<and> video_rate md = Inr rate \<and>
    contains_str ''sources'' md = Inr True \<and> f mt rate = Inr tc_ref \<longrightarrow>
      reconstruct f path md [] = Inl (IndexError, []))"
proof (intro conjI impI)
  show "\<exists>e. read_from_file decode f path [l] = Inl (e, [])"
    by (rule read_from_file_no_events) (simp add: remaining_lines_def)
  show "\<exists>e. read_from_file decode f path [] = Inl (e, [])"
    by (rule read_from_file_no_events) (simp add: remaining_lines_def)
next
  assume "getitem md ''masterTimecode'' = Inr mt \<and> video_rate md = Inr rate \<and>
    contains_str ''sources'' md = Inr True \<and> f mt rate = Inr tc_ref"
  then have "prepare f md [] = Inl IndexError"
    by (blast intro: prepare_no_events_IndexError)
  then show "reconstruct f path md [] = Inl (IndexError, [])"
    by (simp add: reconstruct_def)
qed

theorem no_events_fails_witness:
  "getitem show_header ''masterTimecode'' = Inr (JStr ''01:00:00:00'') \<and>
   video_rate show_header = Inr 25 \<and>
   contains_str ''sources'' show_header = Inr True \<and>
   timecode_25 (JStr ''01:00:00:00'') 25 = Inr 90000 \<and>
   reconstruct timecode_25 ''rec/show.drp'' show_header [] = Inl (IndexError, []) \<and>
   read_from_file show_decode timecode_25 ''rec/show.drp'' [text_line show_header_text]
     = Inl (IndexError, [])"
proof -
  have h: "getitem show_header ''masterTimecode'' = Inr (JStr ''01:00:00:00'') \<and>
      video_rate show_header = Inr 25 \<and>
      contains_str ''sources'' show_header = Inr True \<and>
      timecode_25 (JStr ''01:00:00:00'') 25 = Inr 90000"
    by (simp add: show_header_def py_defs)
  from no_events_fails [of show_decode timecode_25 "''rec/show.drp''"
      "text_line show_header_text" show_header "JStr ''01:00:00:00''" 25 90000] h
  have r: "reconstruct timecode_25 ''rec/show.drp'' show_header [] = Inl (IndexError, [])"
    by blast
  then have "read_from_file show_decode timecode_25 ''rec/show.drp''
      [text_line show_header_text] = Inl (IndexError, [])"
    by (simp add: read_from_file_def readline_def remaining_lines_def
          strip_show_lines loads_show_lines)
  with h r show ?thesis by blast
qed

text \<open>
  C7. When the header has no \<^verbatim>\<open>sources\<close>, or has the empty array as
  \<^verbatim>\<open>sources\<close>, the conversion fails and no clip is made, whatever the events are.
  Without \<^verbatim>\<open>sources\<close>, once the lines decode and the reference timecode and the
  video mode are read, the failure is the function's own \<^verbatim>\<open>No sources in drp file\<close>.
\<close>

theorem missing_or_empty_sources_abort:
  assumes "json_loads decode (strip (readline lines)) = Inr (JObj kvs)"
    and "map_of kvs ''sources'' = None \<or> map_of kvs ''sources'' = Some (JArr [])"
  shows "(\<exists>e. read_from_file decode f path lines = Inl (e, [])) \<and>
         (map_of kvs ''sources'' = None \<and>
          decode_events decode [] (remaining_lines lines) = Inr evs \<and>
          getitem (JObj kvs) ''masterTimecode'' = Inr mt \<and>
          video_rate (JObj kvs) = Inr rate \<longrightarrow>
            read_from_file decode f path lines = Inl (NoSources, []))"
proof (intro conjI impI)
  show "\<exists>e. read_from_file decode f path lines = Inl (e, [])"
  proof (cases "decode_events decode [] (remaining_lines lines)")
    case (Inl e)
    with assms(1) show ?thesis by (simp add: read_from_file_def)
  next
    case (Inr evs')
    with assms(1) reconstruct_without_sources [OF assms(2), of f path evs']
    show ?thesis by (simp add: read_from_file_def)
  qed
next
  assume a: "map_of kvs ''sources'' = None \<and>
          decode_events decode [] (remaining_lines lines) = Inr evs \<and>
          getitem (JObj kvs) ''masterTimecode'' = Inr mt \<and>
          video_rate (JObj kvs) = Inr rate"
  then have "prepare f (JObj kvs) evs = Inl NoSources"
    by (blast intro: prepare_no_sources)
  with a assms(1) show "read_from_file decode f path lines = Inl (NoSources, [])"
    by (simp add: read_from_file_def reconstruct_def)
qed

lemma prepare_empty_sources:
  "prepare timecode_25 (JObj empty_sources_fields) [cut_a, show_end]
     = Inr (25, 90000, [], JInt 0)"
  by (simp add: prepare_def empty_sources_fields_def show_events_defs py_defs)

lemma reconstruct_empty_sources:
  "reconstruct timecode_25 ''rec/show.drp'' (JObj empty_sources_fields) [cut_a, show_end]
     = Inl (KeyError, [])"
proof -
  have "switch_loop timecode_25 25 90000 []
      \<lparr>current_tc = 0, current_source = JInt 0, track = []\<rparr> [cut_a, show_end]
      = Inl (KeyError, [])"
    by (simp add: switch_body_def cut_a_def py_defs)
  then show ?thesis
    by (simp add: reconstruct_def prepare_empty_sources del: switch_loop.simps)
qed

lemma read_empty_sources:
  "read_from_file show_decode timecode_25 ''rec/show.drp''
     (map text_line [empty_sources_header_text, cut_a_text, show_end_text])
   = Inl (KeyError, [])"
  by (simp add: read_from_file_def readline_def remaining_lines_def strip_show_lines
        loads_show_lines reconstruct_empty_sources)

theorem missing_or_empty_sources_abort_witness:
  "map_of no_sources_fields ''sources'' = None \<and>
   read_from_file show_decode timecode_25 ''rec/show.drp''
     (map text_line [no_sources_header_text, cut_a_text, show_end_text])
   = Inl (NoSources, []) \<and>
   map_of empty_sources_fields ''sources'' = Some (JArr []) \<and>
   read_from_file show_decode timecode_25 ''rec/show.drp''
     (map text_line [empty_sources_header_text, cut_a_text, show_end_text])
   = Inl (KeyError, [])"
proof -
  let ?lines = "map text_line [no_sources_header_text, cut_a_text, show_end_text]"
  have h: "json_loads show_decode (strip (readline ?lines)) = Inr (JObj no_sources_fields)"
    by (simp add: readline_def strip_show_lines loads_show_lines)
  have n: "map_of no_sources_fields ''sources'' = None"
    by (simp add: no_sources_fields_def)
  have d: "decode_events show_decode [] (remaining_lines ?lines) = Inr [cut_a, show_end]"
    by (simp add: remaining_lines_def strip_show_lines loads_show_lines)
  have g: "getitem (JObj no_sources_fields) ''masterTimecode'' = Inr (JStr ''01:00:00:00'')"
    "video_rate (JObj no_sources_fields) = Inr 25"
    by (simp_all add: no_sources_fields_def py_defs)
  have e: "map_of empty_sources_fields ''sources'' = Some (JArr [])"
    by (simp add: empty_sources_fields_def)
  from missing_or_empty_sources_abort [OF h disjI1 [OF n], of timecode_25 "''rec/show.drp''"
      "[cut_a, show_end]" "JStr ''01:00:00:00''" 25] n d g
  have "read_from_file show_decode timecode_25 ''rec/show.drp'' ?lines = Inl (NoSources, [])"
    by blast
  with n e read_empty_sources show ?thesis by blast
qed

section \<open>Where the function departs from the specification\<close>

text \<open>
  C1. The specification gives each clip the duration \<open>eventFrame - currentFrame\<close>, the
  time since the switch before. The function gives it \<open>next_clip_tc - tc_ref\<close>, the time
  since the start of the show. On the recorded show the switches are 25, 50 and 75 frames
  after the reference and the cursor stands at 0, 25 and 75: the second clip lasts 50
  frames, not 25, and the third 75.
\<close>

theorem show_clip_durations:
  "read_from_file show_decode timecode_25 ''rec/show.drp'' show_file
     = Inr (show_timeline 75) \<and>
   timecode_25 (JStr ''01:00:00:00'') 25 = Inr 90000 \<and>
   map (switch_frame timecode_25 25) [cut_a, cut_b, show_end]
     = [Inr 90025, Inr 90050, Inr 90075] \<and>
   map range_start (track_clips (show_timeline 75)) = [0, 25, 75] \<and>
   map range_duration (track_clips (show_timeline 75)) = [25, 50, 75]"
proof -
  have "map (switch_frame timecode_25 25) [cut_a, cut_b, show_end]
     = [Inr 90025, Inr 90050, Inr 90075]"
    by (simp add: switch_frame_def show_events_defs py_defs)
  moreover have "timecode_25 (JStr ''01:00:00:00'') 25 = Inr 90000"
    by (simp add: py_defs)
  ultimately show ?thesis
    using read_show_file by (simp add: show_timeline_def show_clips_def)
qed

text \<open>
  C2. The durations of the clips of the recorded show add up to 150 frames, while its
  last switch is 75 frames after the reference.
\<close>

theorem show_total_duration:
  "read_from_file show_decode timecode_25 ''rec/show.drp'' show_file
     = Inr (show_timeline 75) \<and>
   sum_list (map range_duration (track_clips (show_timeline 75))) = 150 \<and>
   bnd (last_item [cut_a, cut_b, show_end]) (switch_frame timecode_25 25) = Inr 90075 \<and>
   switch_frame timecode_25 25 show_header = Inr 90000"
proof -
  have "bnd (last_item [cut_a, cut_b, show_end]) (switch_frame timecode_25 25) = Inr 90075"
    by (simp add: switch_frame_def show_events_defs py_defs)
  moreover have "switch_frame timecode_25 25 show_header = Inr 90000"
    by (simp add: switch_frame_def show_header_def py_defs)
  ultimately show ?thesis
    using read_show_file by (simp add: show_timeline_def show_clips_def)
qed

subsection \<open>The source on air at the start\<close>

lemma initial_source_absent:
  "map_of kvs ''mixEffectBlocks'' = None \<Longrightarrow> initial_source (JObj kvs) = Inr (JInt 0)"
  by (simp add: initial_source_def)

lemma initial_source_no_key:
  "map_of kvs ''mixEffectBlocks'' = Some (JArr (JObj block # blocks)) \<Longrightarrow>
   map_of block ''source'' = None \<Longrightarrow> initial_source (JObj kvs) = Inr (JInt 0)"
  by (simp add: initial_source_def)

lemma prepare_initial_source:
  "prepare f md evs = Inr (rate, tc_ref, ex, s0) \<Longrightarrow> initial_source md = Inr s0"
  by (auto simp: prepare_def bnd_def split: sum.splits if_splits)

text \<open>
  C5, as the function has it. Only a \<^verbatim>\<open>KeyError\<close> is caught when the first source
  is read. When the header has no \<^verbatim>\<open>mixEffectBlocks\<close>, or when the first element
  of that array is an object without \<^verbatim>\<open>source\<close>, the source that is on air at the
  start is 0 and the conversion goes on with it: whenever the preparation succeeds, the
  loop starts from source 0.
\<close>

theorem initial_source_defaults_to_0:
  assumes "map_of kvs ''mixEffectBlocks'' = None \<or>
           (\<exists>block blocks. map_of kvs ''mixEffectBlocks'' = Some (JArr (JObj block # blocks)) \<and>
              map_of block ''source'' = None)"
  shows "initial_source (JObj kvs) = Inr (JInt 0) \<and>
         (prepare f (JObj kvs) evs = Inr (rate, tc_ref, ex, s0) \<longrightarrow> s0 = JInt 0)"
proof -
  from assms have i: "initial_source (JObj kvs) = Inr (JInt 0)"
    by (auto intro: initial_source_absent initial_source_no_key)
  then show ?thesis using prepare_initial_source [of f "JObj kvs" evs rate tc_ref ex s0]
    by auto
qed

lemma prepare_no_mix:
  "prepare timecode_25 (JObj no_mix_fields) [cut_a, cut_b, show_end]
   = Inr (25, 90000, show_extrefs 75, JInt 0)"
  by (simp add: prepare_def no_mix_fields_def show_sources_def show_events_defs
        show_extrefs_def py_defs)

theorem initial_source_defaults_to_0_witness:
  "map_of no_mix_fields ''mixEffectBlocks'' = None \<and>
   initial_source (JObj no_mix_fields) = Inr (JInt 0) \<and>
   reconstruct timecode_25 ''rec/show.drp'' (JObj no_mix_fields) [cut_a, cut_b, show_end]
     = Inr (show_timeline 75) \<and>
   initial_source (JObj [(''mixEffectBlocks'', JArr [JObj []])]) = Inr (JInt 0)"
proof -
  have a: "map_of no_mix_fields ''mixEffectBlocks'' = None"
    by (simp add: no_mix_fields_def)
  from initial_source_defaults_to_0 [OF disjI1 [OF a]]
  have i: "initial_source (JObj no_mix_fields) = Inr (JInt 0)" by blast
  have b: "\<exists>block blocks.
      map_of [(''mixEffectBlocks'', JArr [JObj []])] ''mixEffectBlocks''
        = Some (JArr (JObj block # blocks)) \<and> map_of block ''source'' = None"
    by simp
  from initial_source_defaults_to_0 [OF disjI2 [OF b]]
  have j: "initial_source (JObj [(''mixEffectBlocks'', JArr [JObj []])]) = Inr (JInt 0)"
    by blast
  have "reconstruct timecode_25 ''rec/show.drp'' (JObj no_mix_fields) [cut_a, cut_b, show_end]
     = Inr (show_timeline 75)"
    by (simp add: reconstruct_def prepare_no_mix switch_loop_show show_timeline_def
          basename_def del: switch_loop.simps)
  with a i j show ?thesis by blast
qed

text \<open>The claim as the specification states it fails for the empty array: reading its
  first element raises an \<^verbatim>\<open>IndexError\<close>, which is not caught, and the conversion
  of an otherwise good file fails without a clip.\<close>

theorem empty_blocks_counterexample:
  "getitem no_blocks_header ''mixEffectBlocks'' = Inr (JArr []) \<and>
   initial_source no_blocks_header = Inl IndexError \<and>
   read_from_file show_decode timecode_25 ''rec/show.drp''
     (map text_line [no_blocks_header_text, cut_a_text, show_end_text])
   = Inl (IndexError, [])"
proof -
  have p: "prepare timecode_25 no_blocks_header [cut_a, show_end] = Inl IndexError"
    by (simp add: prepare_def no_blocks_header_def show_events_defs py_defs)
  have "read_from_file show_decode timecode_25 ''rec/show.drp''
     (map text_line [no_blocks_header_text, cut_a_text, show_end_text])
     = Inl (IndexError, [])"
    by (simp add: read_from_file_def readline_def remaining_lines_def strip_show_lines
          loads_show_lines reconstruct_def p)
  moreover have "initial_source no_blocks_header = Inl IndexError"
    by (simp add: no_blocks_header_def initial_source_def)
  moreover have "getitem no_blocks_header ''mixEffectBlocks'' = Inr (JArr [])"
    by (simp add: no_blocks_header_def)
  ultimately show ?thesis by blast
qed

end
